theory Spec2Isabelle
  imports Main
begin

section \<open>Data model\<close>

text \<open>
  The notebook \<^verbatim>\<open>RemoveRiversfromWaterBodyPolygons.ipynb\<close> defines one function,
  \<^verbatim>\<open>Filter_shapefile_by_intersection\<close>, over two geopandas dataframes. A dataframe is
  an ordered sequence of rows; each row carries its index label, its geometry and the
  remaining attribute columns. The dataframe also carries a coordinate reference system
  tag. Geometries (\<open>'g\<close>) and attribute columns (\<open>'a\<close>) are left abstract: the function
  never inspects them.
\<close>

record ('g, 'a) row =
  index :: int
  geometry :: 'g
  attributes :: 'a

record ('g, 'a) GeoDataFrame =
  crs :: string
  rows :: "('g, 'a) row list"

text \<open>The values the docstring allows for \<^verbatim>\<open>filtertype\<close>:
  \<^verbatim>\<open>Options = ['intersects', 'contains', 'within']\<close>.\<close>

datatype filtertype = Intersects | Contains | Within

text \<open>
  A row of the dataframe returned by the spatial join. With \<^verbatim>\<open>how="inner"\<close> the result
  keeps the index of the left dataframe and stores the index of the matching row of the
  right dataframe in the column \<^verbatim>\<open>index_right\<close>, which is the only column the function
  reads.
\<close>

record joined =
  index_left :: int
  index_right :: int

text \<open>
  The spatial join \<^verbatim>\<open>gp.sjoin(left, right, how="inner", op=filtertype)\<close> belongs to the
  geopandas library, not to the notebook. The function is parametrised by it
  (\<open>gp_sjoin\<close> below); the left argument is the filter, the right one the data.
\<close>

type_synonym ('g, 'a, 'b) spatial_join =
  "('g, 'b) GeoDataFrame \<Rightarrow> ('g, 'a) GeoDataFrame \<Rightarrow> filtertype \<Rightarrow> joined list"

text \<open>
  The error taxonomy of the specification. The source function contains no
  \<^verbatim>\<open>raise\<close> statement, and its only assertion (the comparison of the two
  coordinate reference systems) is commented out.
\<close>

datatype error = InvalidInput | CoordinateSystemMismatch | IOFailure

text \<open>
  What the function returns: \<^verbatim>\<open>(gpdDataFiltered, IntersectIndex)\<close>, or
  \<^verbatim>\<open>(gpdDataFiltered, IntersectIndex, gpdDataInverse)\<close> when \<^verbatim>\<open>returnInverse\<close> is set.
  The fields are named as in the contract of the specification.
\<close>

record ('g, 'a) outcome =
  kept :: "('g, 'a) GeoDataFrame"
  excludedIds :: "int list"
  discarded :: "('g, 'a) GeoDataFrame option"

section \<open>Operations\<close>

text \<open>Python's \<^verbatim>\<open>sorted(set(xs))\<close>: the distinct elements in increasing order.\<close>

definition sorted_set :: "int list \<Rightarrow> int list" where
  "sorted_set xs = sort (remdups xs)"

text \<open>\<^verbatim>\<open>df.index.isin(values)\<close>: one boolean per row, in row order.\<close>

definition index_isin :: "('g, 'a) GeoDataFrame \<Rightarrow> int list \<Rightarrow> bool list" where
  "index_isin df vals = map (\<lambda>r. index r \<in> set vals) (rows df)"

text \<open>The operator \<^verbatim>\<open>~\<close> on a boolean mask.\<close>

definition invert :: "bool list \<Rightarrow> bool list" where
  "invert m = map Not m"

text \<open>
  \<^verbatim>\<open>df.loc[mask]\<close> with a boolean mask: a new dataframe with the rows whose mask entry
  is true, in their original order, under the same coordinate reference system.
\<close>

definition loc :: "('g, 'a) GeoDataFrame \<Rightarrow> bool list \<Rightarrow> ('g, 'a) GeoDataFrame" where
  "loc df m = df\<lparr>rows := map fst (filter snd (zip (rows df) m))\<rparr>"

text \<open>
  The function of the notebook, statement by statement. It returns through one of its two
  \<^verbatim>\<open>return\<close> statements on every path.
\<close>

definition Filter_shapefile_by_intersection ::
  "('g, 'a, 'b) spatial_join \<Rightarrow> ('g, 'a) GeoDataFrame \<Rightarrow> ('g, 'b) GeoDataFrame \<Rightarrow>
     filtertype \<Rightarrow> bool \<Rightarrow> bool \<Rightarrow> error + ('g, 'a) outcome" where
  "Filter_shapefile_by_intersection gp_sjoin gpdData gpdFilter ftype invertMask returnInverse =
    (let Intersections = gp_sjoin gpdFilter gpdData ftype;
         IntersectIndex = sorted_set (map index_right Intersections);
         gpdDataFiltered =
           (if invertMask then loc gpdData (invert (index_isin gpdData IntersectIndex))
            else loc gpdData (index_isin gpdData IntersectIndex))
     in if returnInverse then
          (let gpdDataInverse =
             (if invertMask then loc gpdData (index_isin gpdData IntersectIndex)
              else loc gpdData (invert (index_isin gpdData IntersectIndex)))
           in Inr \<lparr>kept = gpdDataFiltered, excludedIds = IntersectIndex,
                    discarded = Some gpdDataInverse\<rparr>)
        else Inr \<lparr>kept = gpdDataFiltered, excludedIds = IntersectIndex, discarded = None\<rparr>)"

section \<open>The spatial join and the Match Set\<close>

text \<open>
  Modelled from the spec: \<^verbatim>\<open>gp.sjoin\<close> is a function of the geopandas library and its code
  is not part of the notebook. Step 1 of the algorithm in the specification reads
  "compute all pairwise (filter-geometry, target-geometry) combinations satisfying
  predicate", where a naive scan over all pairs is "correctness-equivalent" to the indexed
  join. The topological test itself belongs to the geometry library and is the parameter
  \<open>holds\<close>: \<open>holds p a b\<close> says that the left geometry \<open>a\<close> stands in relation \<open>p\<close> to the
  right geometry \<open>b\<close>. An empty side yields no pair ("spatial join over an empty collection
  should return an empty Match Set rather than raising").
\<close>

definition sjoin ::
  "(filtertype \<Rightarrow> 'g \<Rightarrow> 'g \<Rightarrow> bool) \<Rightarrow> ('g, 'b) GeoDataFrame \<Rightarrow> ('g, 'a) GeoDataFrame \<Rightarrow>
     filtertype \<Rightarrow> joined list" where
  "sjoin holds left_df right_df p =
     concat (map (\<lambda>l. map (\<lambda>r. \<lparr>index_left = index l, index_right = index r\<rparr>)
                          (filter (\<lambda>r. holds p (geometry l) (geometry r)) (rows right_df)))
                 (rows left_df))"

text \<open>
  The Match Set in the words of the specification: "the set of Target Collection
  identifiers for which at least one Filter Collection geometry satisfies the Spatial
  Predicate against that target geometry".
\<close>

definition Match_Set ::
  "(filtertype \<Rightarrow> 'g \<Rightarrow> 'g \<Rightarrow> bool) \<Rightarrow> ('g, 'a) GeoDataFrame \<Rightarrow> ('g, 'b) GeoDataFrame \<Rightarrow>
     filtertype \<Rightarrow> int set" where
  "Match_Set holds target flt p =
     index ` {t \<in> set (rows target). \<exists>f \<in> set (rows flt). holds p (geometry f) (geometry t)}"

section \<open>The call at the level of objects\<close>

text \<open>
  Python hands the two dataframes to the function by reference, and a library call may
  write into the objects it is given. The store lists the objects that exist; a reference
  is a position in it. Next to its dataframe an object carries the flag of the spatial
  index that geopandas caches on a dataframe once the index has been built.
\<close>

record ('g, 'a) obj =
  frame :: "('g, 'a) GeoDataFrame"
  sindex_generated :: bool

type_synonym ('g, 'a) store = "('g, 'a) obj list"

text \<open>
  The join as a call on references: it returns the joined rows and the store it leaves
  behind. Nothing in this type keeps it from writing into its arguments.
\<close>

type_synonym ('g, 'a) spatial_join_call =
  "('g, 'a) store \<Rightarrow> nat \<Rightarrow> nat \<Rightarrow> filtertype \<Rightarrow> joined list \<times> ('g, 'a) store"

text \<open>What the function hands back: references to the new dataframes and the list.\<close>

record returned =
  kept_ref :: nat
  ids :: "int list"
  discarded_ref :: "nat option"

text \<open>Reading the dataframe behind a reference; \<open>None\<close> when no object is there.\<close>

definition deref :: "('g, 'a) store \<Rightarrow> nat \<Rightarrow> ('g, 'a) GeoDataFrame option" where
  "deref s p = (if p < length s then Some (frame (s ! p)) else None)"

text \<open>A new dataframe object, without a spatial index, at the next free position.\<close>

definition alloc :: "('g, 'a) store \<Rightarrow> ('g, 'a) GeoDataFrame \<Rightarrow> nat \<times> ('g, 'a) store" where
  "alloc s df = (length s, s @ [\<lparr>frame = df, sindex_generated = False\<rparr>])"

text \<open>\<^verbatim>\<open>df.index.isin(values)\<close> on a reference: reads the object, builds a mask.\<close>

definition isin_call :: "('g, 'a) store \<Rightarrow> nat \<Rightarrow> int list \<Rightarrow> bool list option" where
  "isin_call s p vals = map_option (\<lambda>df. index_isin df vals) (deref s p)"

text \<open>
  \<^verbatim>\<open>df.loc[mask]\<close> on a reference, for a boolean mask: reads the object and returns a
  reference to a new dataframe object.
\<close>

definition loc_call :: "('g, 'a) store \<Rightarrow> nat \<Rightarrow> bool list \<Rightarrow> (nat \<times> ('g, 'a) store) option" where
  "loc_call s p m = map_option (\<lambda>df. alloc s (loc df m)) (deref s p)"

text \<open>
  The function once more, statement by statement, with \<^verbatim>\<open>gpdData\<close> and \<^verbatim>\<open>gpdFilter\<close> as
  references and the store threaded through every call. The result is \<open>None\<close> when a
  reference is read that denotes no object.
\<close>

definition Filter_shapefile_by_intersection_call ::
  "('g, 'a) spatial_join_call \<Rightarrow> ('g, 'a) store \<Rightarrow> nat \<Rightarrow> nat \<Rightarrow> filtertype \<Rightarrow> bool \<Rightarrow> bool \<Rightarrow>
     ((error + returned) \<times> ('g, 'a) store) option" where
  "Filter_shapefile_by_intersection_call gp_sjoin s0 gpdData gpdFilter ftype
       invertMask returnInverse =
    (case gp_sjoin s0 gpdFilter gpdData ftype of (Intersections, s1) \<Rightarrow>
     let IntersectIndex = sorted_set (map index_right Intersections) in
     case isin_call s1 gpdData IntersectIndex of None \<Rightarrow> None | Some m1 \<Rightarrow>
     case (if invertMask then loc_call s1 gpdData (invert m1) else loc_call s1 gpdData m1) of
       None \<Rightarrow> None
     | Some (gpdDataFiltered, s2) \<Rightarrow>
         if returnInverse then
           (case isin_call s2 gpdData IntersectIndex of None \<Rightarrow> None | Some m2 \<Rightarrow>
            case (if invertMask then loc_call s2 gpdData m2
                  else loc_call s2 gpdData (invert m2)) of
              None \<Rightarrow> None
            | Some (gpdDataInverse, s3) \<Rightarrow>
                Some (Inr \<lparr>kept_ref = gpdDataFiltered, ids = IntersectIndex,
                           discarded_ref = Some gpdDataInverse\<rparr>, s3))
         else Some (Inr \<lparr>kept_ref = gpdDataFiltered, ids = IntersectIndex,
                         discarded_ref = None\<rparr>, s2))"

text \<open>
  A store \<open>s'\<close> preserves the dataframes of \<open>s\<close> when every object of \<open>s\<close> is still there with
  the same coordinate reference system and the same rows (index, geometry, attributes);
  the cached spatial index may differ, and \<open>s'\<close> may hold further objects.
\<close>

definition frames_preserved :: "('g, 'a) store \<Rightarrow> ('g, 'a) store \<Rightarrow> bool" where
  "frames_preserved s s' \<longleftrightarrow>
     length s \<le> length s' \<and> map frame (take (length s) s') = map frame s"

section \<open>A small geometry for concrete runs\<close>

text \<open>
  Closed intervals of the integer line, given by their two end points, stand in for
  planar geometries in the concrete runs below: two intervals intersect when they share a
  point, and the left one contains the right one when the right one is non-empty and lies
  inside it; \<open>Within\<close> is the converse of \<open>Contains\<close>.
\<close>

definition interval_holds :: "filtertype \<Rightarrow> int \<times> int \<Rightarrow> int \<times> int \<Rightarrow> bool" where
  "interval_holds p a b =
     (case p of
        Intersects \<Rightarrow> max (fst a) (fst b) \<le> min (snd a) (snd b)
      | Contains \<Rightarrow> fst a \<le> fst b \<and> snd b \<le> snd a \<and> fst b \<le> snd b
      | Within \<Rightarrow> fst b \<le> fst a \<and> snd a \<le> snd b \<and> fst a \<le> snd a)"

text \<open>
  The scenario of the specification: polygon A touches no river, polygon B crosses the
  river line L. In \<open>rivers\<close> a second river line M touches B as well.
\<close>

definition polygons :: "(int \<times> int, string) GeoDataFrame" where
  "polygons = \<lparr>crs = ''epsg:3577'', rows =
     [\<lparr>index = 0, geometry = (0, 1), attributes = ''A''\<rparr>,
      \<lparr>index = 1, geometry = (5, 8), attributes = ''B''\<rparr>]\<rparr>"

definition river :: "(int \<times> int, string) GeoDataFrame" where
  "river = \<lparr>crs = ''epsg:3577'', rows =
     [\<lparr>index = 0, geometry = (6, 7), attributes = ''L''\<rparr>]\<rparr>"

definition rivers :: "(int \<times> int, string) GeoDataFrame" where
  "rivers = \<lparr>crs = ''epsg:3577'', rows =
     [\<lparr>index = 0, geometry = (6, 7), attributes = ''L''\<rparr>,
      \<lparr>index = 1, geometry = (3, 5), attributes = ''M''\<rparr>]\<rparr>"

definition no_rivers :: "(int \<times> int, string) GeoDataFrame" where
  "no_rivers = \<lparr>crs = ''epsg:3577'', rows = []\<rparr>"


section \<open>Basic facts about the operations\<close>

lemma set_sorted_set: "set (sorted_set xs) = set xs"
  by (simp add: sorted_set_def)

lemma sorted_sorted_set: "sorted (sorted_set xs)"
  by (simp add: sorted_set_def)

lemma distinct_sorted_set: "distinct (sorted_set xs)"
  by (simp add: sorted_set_def)

lemma strict_sorted_sorted_set: "sorted_wrt (<) (sorted_set xs)"
  by (simp add: sorted_set_def strict_sorted_iff)

text \<open>
  Python does not fix the order in which a \<^verbatim>\<open>set\<close> is iterated. Whatever order \<open>ys\<close> the
  set of \<open>xs\<close> is handed over in, sorting gives the same list.
\<close>

lemma sorted_set_any_order:
  assumes "distinct ys" and "set ys = set xs"
  shows "sort ys = sorted_set xs"
  unfolding sorted_set_def
  by (rule sorted_distinct_set_unique) (simp_all add: assms)

lemma sorted_set_cong:
  assumes "set xs = set ys"
  shows "sorted_set xs = sorted_set ys"
  unfolding sorted_set_def
  by (rule sorted_distinct_set_unique) (simp_all add: assms)

lemma zip_map_filter: "map fst (filter snd (zip xs (map P xs))) = filter P xs"
  by (induction xs) simp_all

lemma loc_isin:
  "loc df (index_isin df vals) = df\<lparr>rows := filter (\<lambda>r. index r \<in> set vals) (rows df)\<rparr>"
  by (simp add: loc_def index_isin_def zip_map_filter)

lemma loc_not_isin:
  "loc df (invert (index_isin df vals))
     = df\<lparr>rows := filter (\<lambda>r. index r \<notin> set vals) (rows df)\<rparr>"
proof -
  have "invert (index_isin df vals) = map (\<lambda>r. index r \<notin> set vals) (rows df)"
    by (simp add: invert_def index_isin_def)
  then show ?thesis
    by (simp add: loc_def zip_map_filter)
qed

text \<open>
  The function in closed form: the rows are split by whether their index occurs in the
  column \<^verbatim>\<open>index_right\<close> of the join.
\<close>

lemma Filter_shapefile_by_intersection_eq:
  "Filter_shapefile_by_intersection gp_sjoin gpdData gpdFilter ftype invertMask returnInverse =
     Inr \<lparr>kept = gpdData\<lparr>rows := filter
                (\<lambda>r. (index r \<in> index_right ` set (gp_sjoin gpdFilter gpdData ftype)) \<noteq> invertMask)
                (rows gpdData)\<rparr>,
          excludedIds = sorted_set (map index_right (gp_sjoin gpdFilter gpdData ftype)),
          discarded =
            (if returnInverse then
               Some (gpdData\<lparr>rows := filter
                 (\<lambda>r. (index r \<in> index_right ` set (gp_sjoin gpdFilter gpdData ftype)) = invertMask)
                 (rows gpdData)\<rparr>)
             else None)\<rparr>"
  by (simp add: Filter_shapefile_by_intersection_def Let_def loc_isin loc_not_isin
      set_sorted_set)

text \<open>The join of the specification lists exactly the identifiers of the Match Set.\<close>

lemma index_right_sjoin:
  "index_right ` set (sjoin holds flt target p) = Match_Set holds target flt p"
proof (intro set_eqI iffI)
  fix i assume "i \<in> index_right ` set (sjoin holds flt target p)"
  then obtain l r where "l \<in> set (rows flt)" "r \<in> set (rows target)"
      "holds p (geometry l) (geometry r)" "i = index r"
    by (auto simp: sjoin_def)
  then show "i \<in> Match_Set holds target flt p"
    by (auto simp: Match_Set_def)
next
  fix i assume "i \<in> Match_Set holds target flt p"
  then obtain t f where "t \<in> set (rows target)" "f \<in> set (rows flt)"
      "holds p (geometry f) (geometry t)" "i = index t"
    by (auto simp: Match_Set_def)
  then have "\<lparr>index_left = index f, index_right = i\<rparr> \<in> set (sjoin holds flt target p)"
    by (auto simp: sjoin_def)
  then show "i \<in> index_right ` set (sjoin holds flt target p)"
    by force
qed

lemma sjoin_empty:
  "rows target = [] \<or> rows flt = [] \<Longrightarrow> sjoin holds flt target p = []"
  by (auto simp: sjoin_def)

lemma Match_Set_rows:
  "Match_Set holds target flt p =
     set (map index (filter (\<lambda>t. list_ex (\<lambda>f. holds p (geometry f) (geometry t)) (rows flt))
                            (rows target)))"
  by (auto simp: Match_Set_def list_ex_iff)

text \<open>Splitting rows by a test on their index is a partition, also of the indices.\<close>

lemma partition_by_index:
  fixes M :: "int set" and b :: bool
  defines "k \<equiv> \<lambda>xs::('g, 'a) row list. filter (\<lambda>r. (index r \<in> M) = (\<not> b)) xs"
      and "d \<equiv> \<lambda>xs::('g, 'a) row list. filter (\<lambda>r. (index r \<in> M) = b) xs"
  shows "index ` set (k xs) \<inter> index ` set (d xs) = {}"
    and "index ` set (k xs) \<union> index ` set (d xs) = index ` set xs"
    and "set (k xs) \<inter> set (d xs) = {}"
    and "set (k xs) \<union> set (d xs) = set xs"
    and "length (k xs) + length (d xs) = length xs"
proof -
  show "index ` set (k xs) \<inter> index ` set (d xs) = {}"
    unfolding k_def d_def by auto
  show "index ` set (k xs) \<union> index ` set (d xs) = index ` set xs"
    unfolding k_def d_def by auto
  show "set (k xs) \<inter> set (d xs) = {}"
    unfolding k_def d_def by auto
  show "set (k xs) \<union> set (d xs) = set xs"
    unfolding k_def d_def by auto
  have "k xs = filter (\<lambda>r. \<not> ((index r \<in> M) = b)) xs"
    unfolding k_def by (rule filter_cong) auto
  then show "length (k xs) + length (d xs) = length xs"
    unfolding d_def by (simp only: sum_length_filter_compl add.commute)
qed

section \<open>Facts about the store\<close>

lemma frames_preserved_refl: "frames_preserved s s"
  by (simp add: frames_preserved_def)

lemma frames_preserved_trans:
  assumes "frames_preserved s s'" and "frames_preserved s' s''"
  shows "frames_preserved s s''"
proof -
  have l: "length s \<le> length s'" "length s' \<le> length s''"
    using assms by (simp_all add: frames_preserved_def)
  have "map frame (take (length s) s'') = take (length s) (map frame (take (length s') s''))"
    using l by (simp add: take_map min_def)
  also have "\<dots> = take (length s) (map frame s')"
    using assms(2) by (simp add: frames_preserved_def)
  also have "\<dots> = map frame s"
    using assms(1) by (simp add: frames_preserved_def take_map)
  finally show ?thesis
    using l by (simp add: frames_preserved_def)
qed

lemma frames_preserved_alloc: "frames_preserved s (snd (alloc s df))"
  by (simp add: frames_preserved_def alloc_def)

lemma frames_preserved_deref:
  assumes "frames_preserved s s'" and "p < length s"
  shows "deref s' p = deref s p"
proof -
  have "map frame (take (length s) s') ! p = map frame s ! p"
    using assms(1) by (simp add: frames_preserved_def)
  moreover have "length s \<le> length s'"
    using assms(1) by (simp add: frames_preserved_def)
  ultimately show ?thesis
    using assms(2) by (simp add: deref_def)
qed

lemma loc_call_Some:
  assumes "p < length s"
  shows "loc_call s p m = Some (length s, s @ [\<lparr>frame = loc (frame (s ! p)) m, sindex_generated = False\<rparr>])"
  using assms by (simp add: loc_call_def deref_def alloc_def)

lemma isin_call_Some:
  assumes "p < length s"
  shows "isin_call s p vals = Some (index_isin (frame (s ! p)) vals)"
  using assms by (simp add: isin_call_def deref_def)


text \<open>
  The call on references computes what the function on dataframes computes: when the join
  call returns the rows of the join on the two dataframes and preserves the dataframes of
  the store, the returned references denote the kept and the discarded dataframe and the
  list is the same.
\<close>

lemma Filter_shapefile_by_intersection_call_refines:
  assumes join: "frames_preserved s0 (snd (gp_sjoin_call s0 gpdFilter gpdData ftype))"
    and val: "fst (gp_sjoin_call s0 gpdFilter gpdData ftype) = gp_sjoin fd dd ftype"
    and "deref s0 gpdData = Some dd" and "deref s0 gpdFilter = Some fd"
  shows "\<exists>r s' out. Filter_shapefile_by_intersection_call gp_sjoin_call s0 gpdData gpdFilter ftype
                   invertMask returnInverse = Some (Inr r, s')
     \<and> Filter_shapefile_by_intersection gp_sjoin dd fd ftype invertMask returnInverse = Inr out
     \<and> deref s' (kept_ref r) = Some (kept out) \<and> ids r = excludedIds out
     \<and> map_option (deref s') (discarded_ref r) = map_option Some (discarded out)"
proof -
  obtain J s1 where J: "gp_sjoin_call s0 gpdFilter gpdData ftype = (J, s1)"
    by (cases "gp_sjoin_call s0 gpdFilter gpdData ftype")
  have p1: "frames_preserved s0 s1"
    using join J by simp
  have b: "gpdData < length s0"
    using assms(3) by (simp add: deref_def split: if_splits)
  have len: "length s0 \<le> length s1"
    using p1 by (simp add: frames_preserved_def)
  have d1: "gpdData < length s1"
    using len b by simp
  have "deref s1 gpdData = Some dd"
    using frames_preserved_deref [OF p1 b] assms(3) by simp
  then have fr: "frame (s1 ! gpdData) = dd"
    using d1 by (simp add: deref_def)
  have Jv: "J = gp_sjoin fd dd ftype"
    using val J by simp
  show ?thesis
    using d1 by (simp add: Filter_shapefile_by_intersection_call_def J Let_def
        isin_call_Some loc_call_Some nth_append fr Jv Filter_shapefile_by_intersection_def deref_def)
qed


lemma interval_contains_intersects:
  "interval_holds Contains a b \<Longrightarrow> interval_holds Intersects a b"
  by (auto simp: interval_holds_def)

lemmas run_defs = Filter_shapefile_by_intersection_def sjoin_def sorted_set_def loc_def
  index_isin_def invert_def interval_holds_def polygons_def river_def rivers_def
  no_rivers_def Let_def

section \<open>The returned identifiers\<close>

text \<open>
  C1. For every target collection, filter collection, predicate and \<^verbatim>\<open>invertMask\<close>, the
  \<open>excludedIds\<close> (\<^verbatim>\<open>IntersectIndex\<close>) that the function returns hold exactly the Match
  Set, the identifiers of the targets that satisfy the predicate against at least one
  filter geometry, and the list is the same for \<^verbatim>\<open>invertMask\<close> true and false. The join
  is the one of the specification.
\<close>

theorem excludedIds_is_Match_Set:
  "\<exists>out. Filter_shapefile_by_intersection (sjoin holds) gpdData gpdFilter ftype
            invertMask returnInverse = Inr out
     \<and> set (excludedIds out) = Match_Set holds gpdData gpdFilter ftype
     \<and> (\<exists>out'. Filter_shapefile_by_intersection (sjoin holds) gpdData gpdFilter ftype
                  (\<not> invertMask) returnInverse = Inr out'
          \<and> excludedIds out' = excludedIds out)"
  by (simp add: Filter_shapefile_by_intersection_eq set_sorted_set index_right_sjoin)

text \<open>
  The scenario of the specification: with one river crossing B, the list is \<open>[1]\<close> for
  both values of \<^verbatim>\<open>invertMask\<close>, while the kept polygon changes from A to B.
\<close>

theorem excludedIds_is_Match_Set_witness:
  "Filter_shapefile_by_intersection (sjoin interval_holds) polygons river Intersects True False
     = Inr \<lparr>kept = \<lparr>crs = ''epsg:3577'',
                     rows = [\<lparr>index = 0, geometry = (0, 1), attributes = ''A''\<rparr>]\<rparr>,
            excludedIds = [1], discarded = None\<rparr>
   \<and> Filter_shapefile_by_intersection (sjoin interval_holds) polygons river Intersects False False
     = Inr \<lparr>kept = \<lparr>crs = ''epsg:3577'',
                     rows = [\<lparr>index = 1, geometry = (5, 8), attributes = ''B''\<rparr>]\<rparr>,
            excludedIds = [1], discarded = None\<rparr>
   \<and> Match_Set interval_holds polygons river Intersects = {1}"
  using excludedIds_is_Match_Set [of interval_holds polygons river Intersects True False]
  by (simp add: run_defs Match_Set_rows)

section \<open>The kept rows\<close>

text \<open>
  C2. With \<^verbatim>\<open>invertMask\<close> true the kept dataframe \<^verbatim>\<open>gpdDataFiltered\<close> is the target
  dataframe restricted to the rows whose identifier is not in the Match Set; with
  \<^verbatim>\<open>invertMask\<close> false it is the target dataframe restricted to the rows whose identifier
  is in the Match Set. Row order, attributes and the coordinate reference system are those
  of the target.
\<close>

theorem kept_by_invertMask:
  "\<exists>out. Filter_shapefile_by_intersection (sjoin holds) gpdData gpdFilter ftype
            invertMask returnInverse = Inr out
     \<and> kept out = gpdData\<lparr>rows :=
          filter (\<lambda>t. if invertMask then index t \<notin> Match_Set holds gpdData gpdFilter ftype
                      else index t \<in> Match_Set holds gpdData gpdFilter ftype)
                 (rows gpdData)\<rparr>"
  by (cases invertMask) (simp_all add: Filter_shapefile_by_intersection_eq index_right_sjoin)

theorem kept_by_invertMask_witness:
  "(\<exists>out. Filter_shapefile_by_intersection (sjoin interval_holds) polygons rivers
             Intersects True False = Inr out
      \<and> kept out = \<lparr>crs = ''epsg:3577'',
                     rows = [\<lparr>index = 0, geometry = (0, 1), attributes = ''A''\<rparr>]\<rparr>)
   \<and> (\<exists>out. Filter_shapefile_by_intersection (sjoin interval_holds) polygons rivers
             Intersects False False = Inr out
      \<and> kept out = \<lparr>crs = ''epsg:3577'',
                     rows = [\<lparr>index = 1, geometry = (5, 8), attributes = ''B''\<rparr>]\<rparr>)"
  using kept_by_invertMask [of interval_holds polygons rivers Intersects True False]
    kept_by_invertMask [of interval_holds polygons rivers Intersects False False]
  by (simp add: run_defs Match_Set_rows)

section \<open>Kept and discarded rows partition the target\<close>

text \<open>
  C3. With \<^verbatim>\<open>returnInverse\<close> set, whatever the join returns, the function returns a
  discarded dataframe \<^verbatim>\<open>gpdDataInverse\<close>, and every target identifier belongs to exactly
  one of kept and discarded: the two have no identifier and no row in common, and together
  they hold all identifiers and all rows of the target, each row once.
\<close>

theorem kept_discarded_partition:
  "\<exists>out dis. Filter_shapefile_by_intersection gp_sjoin gpdData gpdFilter ftype invertMask True
               = Inr out
     \<and> discarded out = Some dis
     \<and> index ` set (rows (kept out)) \<inter> index ` set (rows dis) = {}
     \<and> index ` set (rows (kept out)) \<union> index ` set (rows dis) = index ` set (rows gpdData)
     \<and> set (rows (kept out)) \<inter> set (rows dis) = {}
     \<and> set (rows (kept out)) \<union> set (rows dis) = set (rows gpdData)
     \<and> length (rows (kept out)) + length (rows dis) = length (rows gpdData)"
  by (simp add: Filter_shapefile_by_intersection_eq partition_by_index del: set_filter)

theorem kept_discarded_partition_witness:
  "\<exists>out dis. Filter_shapefile_by_intersection (sjoin interval_holds) polygons river
               Intersects True True = Inr out
      \<and> discarded out = Some dis
      \<and> rows (kept out) = [\<lparr>index = 0, geometry = (0, 1), attributes = ''A''\<rparr>]
      \<and> rows dis = [\<lparr>index = 1, geometry = (5, 8), attributes = ''B''\<rparr>]
      \<and> set (rows (kept out)) \<inter> set (rows dis) = {}
      \<and> set (rows (kept out)) \<union> set (rows dis) = set (rows polygons)"
  using kept_discarded_partition [of "sjoin interval_holds" polygons river Intersects True]
  by (simp add: run_defs)

section \<open>Empty collections\<close>

text \<open>
  C4. When the filter collection is empty, the join of the specification produces no
  pair, the function returns the empty list as \<open>excludedIds\<close> (the Match Set is empty), and
  with \<^verbatim>\<open>invertMask\<close> true the kept dataframe is the whole target dataframe.
\<close>

theorem empty_filter_keeps_all:
  assumes "rows gpdFilter = []"
  shows "sjoin holds gpdFilter gpdData ftype = []
     \<and> (\<exists>out. Filter_shapefile_by_intersection (sjoin holds) gpdData gpdFilter ftype
                 invertMask returnInverse = Inr out
          \<and> excludedIds out = []
          \<and> set (excludedIds out) = Match_Set holds gpdData gpdFilter ftype
          \<and> (invertMask \<longrightarrow> kept out = gpdData))"
proof -
  have "sjoin holds gpdFilter gpdData ftype = []"
    using assms by (simp add: sjoin_empty)
  moreover have "Match_Set holds gpdData gpdFilter ftype = {}"
    using assms by (simp add: Match_Set_def)
  ultimately show ?thesis
    by (simp add: Filter_shapefile_by_intersection_eq sorted_set_def)
qed

theorem empty_filter_keeps_all_witness:
  "rows no_rivers = []
   \<and> Filter_shapefile_by_intersection (sjoin interval_holds) polygons no_rivers
       Intersects True False
     = Inr \<lparr>kept = polygons, excludedIds = [], discarded = None\<rparr>"
proof -
  have e: "rows no_rivers = []"
    by (simp add: no_rivers_def)
  show ?thesis
    using e empty_filter_keeps_all [OF e, of interval_holds polygons Intersects True False]
    by (auto simp: Filter_shapefile_by_intersection_def Let_def)
qed

section \<open>Monotonicity in the predicate\<close>

text \<open>
  C7. If the geometry library's \<open>contains\<close> relation implies its \<open>intersects\<close> relation,
  then on the same target and filter collections the Match Set for \<open>contains\<close> is a
  subset of the Match Set for \<open>intersects\<close>, and so are the identifiers the function
  returns. The join is the one of the specification.
\<close>

theorem contains_subset_intersects:
  assumes "\<And>a b. holds Contains a b \<Longrightarrow> holds Intersects a b"
  shows "Match_Set holds gpdData gpdFilter Contains
           \<subseteq> Match_Set holds gpdData gpdFilter Intersects
    \<and> (\<exists>oc oi.
        Filter_shapefile_by_intersection (sjoin holds) gpdData gpdFilter Contains
          invertMask returnInverse = Inr oc
      \<and> Filter_shapefile_by_intersection (sjoin holds) gpdData gpdFilter Intersects
          invertMask returnInverse = Inr oi
      \<and> set (excludedIds oc) \<subseteq> set (excludedIds oi))"
proof -
  have "Match_Set holds gpdData gpdFilter Contains
          \<subseteq> Match_Set holds gpdData gpdFilter Intersects"
    using assms unfolding Match_Set_def by blast
  then show ?thesis
    by (simp add: Filter_shapefile_by_intersection_eq set_sorted_set index_right_sjoin)
qed

text \<open>
  Here the river lines are the targets and the polygons the filter: B contains L and
  merely touches M, so \<open>contains\<close> matches L and \<open>intersects\<close> matches L and M.
\<close>

theorem contains_subset_intersects_witness:
  "Match_Set interval_holds rivers polygons Contains = {0}
   \<and> Match_Set interval_holds rivers polygons Intersects = {0, 1}
   \<and> (\<exists>oc oi.
        Filter_shapefile_by_intersection (sjoin interval_holds) rivers polygons Contains
          True False = Inr oc
      \<and> Filter_shapefile_by_intersection (sjoin interval_holds) rivers polygons Intersects
          True False = Inr oi
      \<and> excludedIds oc = [0] \<and> excludedIds oi = [0, 1]
      \<and> set (excludedIds oc) \<subseteq> set (excludedIds oi))"
  using contains_subset_intersects
          [of interval_holds rivers polygons True False, OF interval_contains_intersects]
  by (simp add: run_defs Match_Set_rows)

section \<open>Determinism\<close>

text \<open>
  C8. Two invocations with the same target collection, filter collection, predicate,
  \<^verbatim>\<open>invertMask\<close> and \<^verbatim>\<open>returnInverse\<close> return the same kept dataframe, the same
  \<open>excludedIds\<close> and the same discarded dataframe. The only freedom between two runs is
  the order (and multiplicity) in which the join lists the matching pairs, and the order
  in which Python iterates the set of identifiers: neither reaches the outputs. The
  statement with \<open>join1 = join2\<close> is the plain one.
\<close>

theorem outcome_deterministic:
  assumes "set (join1 gpdFilter gpdData ftype) = set (join2 gpdFilter gpdData ftype)"
  shows "Filter_shapefile_by_intersection join1 gpdData gpdFilter ftype invertMask returnInverse
       = Filter_shapefile_by_intersection join2 gpdData gpdFilter ftype invertMask returnInverse"
proof -
  have "sorted_set (map index_right (join1 gpdFilter gpdData ftype))
      = sorted_set (map index_right (join2 gpdFilter gpdData ftype))"
    by (rule sorted_set_cong) (simp add: assms)
  then show ?thesis
    by (simp add: Filter_shapefile_by_intersection_eq assms)
qed

theorem outcome_deterministic_witness:
  "sjoin interval_holds rivers polygons Intersects
     \<noteq> rev (sjoin interval_holds rivers polygons Intersects)
   \<and> Filter_shapefile_by_intersection (sjoin interval_holds) polygons rivers
        Intersects True True
     = Filter_shapefile_by_intersection (\<lambda>l r p. rev (sjoin interval_holds l r p))
         polygons rivers Intersects True True"
proof -
  have "sjoin interval_holds rivers polygons Intersects
     \<noteq> rev (sjoin interval_holds rivers polygons Intersects)"
    by (simp add: run_defs)
  then show ?thesis
    using outcome_deterministic [of "sjoin interval_holds" rivers polygons Intersects
                "\<lambda>l r p. rev (sjoin interval_holds l r p)" True True]
    by simp
qed

section \<open>The inputs are left unchanged\<close>




section \<open>The index list is sorted and free of duplicates\<close>

text \<open>
  C10. For every input and whatever the join returns, the returned \<^verbatim>\<open>IntersectIndex\<close>
  (\<open>excludedIds\<close>) is in strictly increasing order: it is sorted and has no duplicates,
  also when the join lists one target row several times.
\<close>

theorem IntersectIndex_sorted_distinct:
  "\<exists>out. Filter_shapefile_by_intersection gp_sjoin gpdData gpdFilter ftype
            invertMask returnInverse = Inr out
       \<and> sorted (excludedIds out) \<and> distinct (excludedIds out)
       \<and> sorted_wrt (<) (excludedIds out)"
  by (simp add: Filter_shapefile_by_intersection_eq strict_sorted_sorted_set
      sorted_sorted_set distinct_sorted_set)

text \<open>Polygon B meets both river lines, so the join lists its index twice.\<close>

theorem IntersectIndex_sorted_distinct_witness:
  "map index_right (sjoin interval_holds rivers polygons Intersects) = [1, 1]
   \<and> (\<exists>out. Filter_shapefile_by_intersection (sjoin interval_holds) polygons rivers
              Intersects True False = Inr out
         \<and> excludedIds out = [1] \<and> sorted (excludedIds out) \<and> distinct (excludedIds out))"
  using IntersectIndex_sorted_distinct
          [of "sjoin interval_holds" polygons rivers Intersects True False]
  by (simp add: run_defs)

end
